theory Spec2Isabelle
  imports Main "HOL-Library.Word" "HOL-Library.Sublist"
begin

section \<open>Data model\<close>

text \<open>
  The scene module manager (\<^verbatim>\<open>SceneModuleManagerInterface\<close>) tracks the running instances of
  one behaviour type through weak references. An instance lives in a store owned by the
  planner; a weak reference is the handle of a store cell, and it is expired exactly when the
  cell is gone. Handles are never reused, as the control block of a \<^verbatim>\<open>weak_ptr\<close> is not.
  Planner data, module outputs and poses are opaque to the manager: they are tokens.
  Time stamps are not modelled.
\<close>

type_synonym planner_data = nat
type_synonym behavior_module_output = nat
type_synonym pose = nat
type_synonym publisher = nat

text \<open>
  The marker message (\<^verbatim>\<open>visualization_msgs::Marker\<close>), whose declaration is not part of the
  shown code: the identifier \<^verbatim>\<open>id\<close> is a signed 32-bit integer (\<^verbatim>\<open>int32\<close>); the field is
  called \<open>ident\<close> here, \<open>id\<close> being the identity function of HOL. Adding the unsigned 32-bit
  \<^verbatim>\<open>marker_id\<close> to it wraps modulo \<open>2 ^ 32\<close>, as addition of words does; \<open>sint\<close> reads the
  signed value.
\<close>

record marker =
  marker_ns :: string
  ident :: "32 word"
  marker_text :: string
  marker_pose :: pose

type_synonym marker_array = "marker list"

text \<open>
  Modelled from the spec: the classification of an intent factor (\<^verbatim>\<open>PlanningBehavior\<close>),
  whose declaration is not part of the shown code. \<open>UNKNOWN\<close> is the unknown/unset sentinel,
  every other value is a concrete classification.
\<close>

datatype planning_behavior = UNKNOWN | AVOIDANCE | GOAL_PLANNER | LANE_CHANGE | START_PLANNER

record steering_factor =
  sf_behavior :: planning_behavior
  sf_direction :: nat
  sf_status :: nat

record velocity_factor =
  vf_behavior :: planning_behavior
  vf_status :: nat

record 'f factor_array =
  frame_id :: string
  factors :: "'f list"

datatype module_call = OnEntry | OnExit | UpdateData | ResetWallPoses

text \<open>
  Modelled from the spec: the module instance (\<^verbatim>\<open>SceneModuleInterface\<close>), whose class is not
  part of the shown code. The record holds the fields the manager sets, the values its queries
  return, and \<open>hooks\<close>, the lifecycle calls the instance has received, oldest first.
\<close>

record scene_module =
  instance_name :: string
  module_planner_data :: "planner_data option"
  previous_module_output :: "behavior_module_output option"
  time_keeper_reporters :: "publisher list"
  hooks :: "module_call list"
  execution_requested :: bool
  stop_pose :: "pose option"
  slow_pose :: "pose option"
  dead_pose :: "pose option"
  module_virtual_wall :: marker_array
  info_markers :: marker_array
  debug_markers :: marker_array
  drivable_lanes_markers :: marker_array
  module_steering_factor :: steering_factor
  module_velocity_factor :: velocity_factor

type_synonym observer = nat
type_synonym store = "observer \<rightharpoonup> scene_module"

text \<open>
  The manager. The publishers are output channels: each holds the messages published on it,
  oldest first. They and the node are created by \<^verbatim>\<open>initInterface\<close>, which is not part of the
  shown code, and are taken as present. \<open>idle_module_ptr\<close> is the exclusively owned idle
  instance, \<open>None\<close> for the null pointer.
\<close>

record manager =
  manager_name :: string
  planner_data_ptr :: "planner_data option"
  observers :: "observer list"
  idle_module_ptr :: "scene_module option"
  pub_processing_time :: publisher
  pub_info_marker :: "marker_array list"
  pub_debug_marker :: "marker_array list"
  pub_virtual_wall :: "marker_array list"
  pub_drivable_lanes :: "marker_array list"
  pub_steering_factors :: "steering_factor factor_array list"
  pub_velocity_factors :: "velocity_factor factor_array list"

datatype error = NullPointerDereference

section \<open>The module instance interface\<close>

text \<open>Modelled from the spec: \<^verbatim>\<open>setData(ctx)\<close> stores the planner context in the instance.\<close>

definition setData :: "planner_data option \<Rightarrow> scene_module \<Rightarrow> scene_module" where
  "setData d md = md\<lparr>module_planner_data := d\<rparr>"

text \<open>Modelled from the spec: \<^verbatim>\<open>setPreviousModuleOutput(out)\<close> stores the previous stage's output.\<close>

definition setPreviousModuleOutput :: "behavior_module_output \<Rightarrow> scene_module \<Rightarrow> scene_module" where
  "setPreviousModuleOutput out md = md\<lparr>previous_module_output := Some out\<rparr>"

text \<open>Modelled from the spec: \<^verbatim>\<open>getTimeKeeper()->add_reporter(p)\<close> attaches a reporter.\<close>

definition add_reporter :: "publisher \<Rightarrow> scene_module \<Rightarrow> scene_module" where
  "add_reporter p md = md\<lparr>time_keeper_reporters := time_keeper_reporters md @ [p]\<rparr>"

text \<open>Modelled from the spec: the lifecycle hooks and the data refresh are recorded as received.\<close>

definition onEntry :: "scene_module \<Rightarrow> scene_module" where
  "onEntry md = md\<lparr>hooks := hooks md @ [OnEntry]\<rparr>"

definition onExit :: "scene_module \<Rightarrow> scene_module" where
  "onExit md = md\<lparr>hooks := hooks md @ [OnExit]\<rparr>"

definition updateData :: "scene_module \<Rightarrow> scene_module" where
  "updateData md = md\<lparr>hooks := hooks md @ [UpdateData]\<rparr>"

text \<open>Modelled from the spec: \<^verbatim>\<open>resetWallPoses()\<close> clears the recorded wall poses.\<close>

definition resetWallPoses :: "scene_module \<Rightarrow> scene_module" where
  "resetWallPoses md =
     md\<lparr>stop_pose := None, slow_pose := None, dead_pose := None,
        hooks := hooks md @ [ResetWallPoses]\<rparr>"

text \<open>
  Modelled from the spec: the wall marker factories of \<^verbatim>\<open>motion_utils\<close>, which are not part of
  the shown code. Each synthesizes the wall marker of its kind at the pose, labeled with the
  module name and the identifier it is given.
\<close>

definition createStopVirtualWallMarker :: "pose \<Rightarrow> string \<Rightarrow> 32 word \<Rightarrow> marker_array" where
  "createStopVirtualWallMarker p nm i =
     [\<lparr>marker_ns = ''stop_virtual_wall'', ident = i, marker_text = nm, marker_pose = p\<rparr>]"

definition createSlowDownVirtualWallMarker :: "pose \<Rightarrow> string \<Rightarrow> 32 word \<Rightarrow> marker_array" where
  "createSlowDownVirtualWallMarker p nm i =
     [\<lparr>marker_ns = ''slow_down_virtual_wall'', ident = i, marker_text = nm, marker_pose = p\<rparr>]"

definition createDeadLineVirtualWallMarker :: "pose \<Rightarrow> string \<Rightarrow> 32 word \<Rightarrow> marker_array" where
  "createDeadLineVirtualWallMarker p nm i =
     [\<lparr>marker_ns = ''dead_line_virtual_wall'', ident = i, marker_text = nm, marker_pose = p\<rparr>]"

text \<open>Modelled from the spec: \<^verbatim>\<open>appendMarkerArray\<close> appends the first array to the second.\<close>

definition appendMarkerArray :: "marker_array \<Rightarrow> marker_array \<Rightarrow> marker_array" where
  "appendMarkerArray additional markers = markers @ additional"

section \<open>The manager's operations\<close>

text \<open>
  \<^verbatim>\<open>observer.expired()\<close>: the referenced instance no longer exists. \<^verbatim>\<open>observer.lock()\<close> is the
  lookup \<open>h a\<close> in the store \<open>h\<close>, which is \<open>None\<close> exactly for an expired reference.
\<close>

definition expired :: "store \<Rightarrow> observer \<Rightarrow> bool" where
  "expired h a = (h a = None)"

text \<open>
  \<^verbatim>\<open>isExecutionRequested\<close>: the four statements dereference \<open>idle_module_ptr\<close> without a
  check; with the null pointer the first of them is the failure.
\<close>

definition isExecutionRequested ::
  "behavior_module_output \<Rightarrow> manager \<Rightarrow> error + (bool \<times> manager)" where
  "isExecutionRequested previous_output m =
     (case idle_module_ptr m of
        None \<Rightarrow> Inl NullPointerDereference
      | Some idle \<Rightarrow>
          let idle1 = setData (planner_data_ptr m) idle;
              idle2 = setPreviousModuleOutput previous_output idle1;
              idle3 = updateData idle2
          in Inr (execution_requested idle3, m\<lparr>idle_module_ptr := Some idle3\<rparr>))"

text \<open>\<^verbatim>\<open>getIdleModule\<close>: moves the idle instance out; the manager keeps the null pointer.\<close>

definition getIdleModule :: "manager \<Rightarrow> scene_module option \<times> manager" where
  "getIdleModule m = (idle_module_ptr m, m\<lparr>idle_module_ptr := None\<rparr>)"

text \<open>\<^verbatim>\<open>registerNewModule\<close>: the branch \<open>None\<close> is the early return on an expired reference.\<close>

definition registerNewModule ::
  "observer \<Rightarrow> behavior_module_output \<Rightarrow> store \<times> manager \<Rightarrow> store \<times> manager" where
  "registerNewModule obs previous_output w =
     (case w of (h, m) \<Rightarrow>
        (case h obs of
           None \<Rightarrow> (h, m)
         | Some md \<Rightarrow>
             let md1 = setData (planner_data_ptr m) md;
                 md2 = setPreviousModuleOutput previous_output md1;
                 md3 = add_reporter (pub_processing_time m) md2;
                 md4 = onEntry md3
             in (h(obs \<mapsto> md4), m\<lparr>observers := observers m @ [obs]\<rparr>)))"

text \<open>
  \<^verbatim>\<open>std::remove_if\<close> over the vector, followed by \<^verbatim>\<open>erase\<close> of the tail: one pass that keeps
  an entry when the predicate is false of it.
\<close>

fun remove_if :: "('a \<Rightarrow> bool) \<Rightarrow> 'a list \<Rightarrow> 'a list" where
  "remove_if p [] = []"
| "remove_if p (x # xs) = (if p x then remove_if p xs else x # remove_if p xs)"

definition updateObserver :: "store \<Rightarrow> manager \<Rightarrow> manager" where
  "updateObserver h m = m\<lparr>observers := remove_if (expired h) (observers m)\<rparr>"

definition canLaunchNewModule :: "manager \<Rightarrow> bool" where
  "canLaunchNewModule m = (observers m = [])"

text \<open>The number of entries of the observer list whose instance is still live.\<close>

definition live_count :: "store \<Rightarrow> manager \<Rightarrow> nat" where
  "live_count h m = length (filter (\<lambda>a. \<not> expired h a) (observers m))"

text \<open>
  \<^verbatim>\<open>publishSteeringFactor\<close> and \<^verbatim>\<open>publishVelocityFactor\<close>: the loop over the observers, with
  the batch built so far; an expired entry is skipped.
\<close>

fun steering_factor_loop ::
  "store \<Rightarrow> observer list \<Rightarrow> steering_factor list \<Rightarrow> steering_factor list" where
  "steering_factor_loop h [] fs = fs"
| "steering_factor_loop h (a # as) fs =
     (case h a of
        None \<Rightarrow> steering_factor_loop h as fs
      | Some md \<Rightarrow>
          let steering_factor = module_steering_factor md
          in if sf_behavior steering_factor \<noteq> UNKNOWN
             then steering_factor_loop h as (fs @ [steering_factor])
             else steering_factor_loop h as fs)"

definition steering_factor_array :: "store \<Rightarrow> manager \<Rightarrow> steering_factor factor_array" where
  "steering_factor_array h m =
     \<lparr>frame_id = ''map'', factors = steering_factor_loop h (observers m) []\<rparr>"

definition publishSteeringFactor :: "store \<Rightarrow> manager \<Rightarrow> manager" where
  "publishSteeringFactor h m =
     m\<lparr>pub_steering_factors := pub_steering_factors m @ [steering_factor_array h m]\<rparr>"

fun velocity_factor_loop ::
  "store \<Rightarrow> observer list \<Rightarrow> velocity_factor list \<Rightarrow> velocity_factor list" where
  "velocity_factor_loop h [] fs = fs"
| "velocity_factor_loop h (a # as) fs =
     (case h a of
        None \<Rightarrow> velocity_factor_loop h as fs
      | Some md \<Rightarrow>
          let velocity_factor = module_velocity_factor md
          in if vf_behavior velocity_factor \<noteq> UNKNOWN
             then velocity_factor_loop h as (fs @ [velocity_factor])
             else velocity_factor_loop h as fs)"

definition velocity_factor_array :: "store \<Rightarrow> manager \<Rightarrow> velocity_factor factor_array" where
  "velocity_factor_array h m =
     \<lparr>frame_id = ''map'', factors = velocity_factor_loop h (observers m) []\<rparr>"

definition publishVelocityFactor :: "store \<Rightarrow> manager \<Rightarrow> manager" where
  "publishVelocityFactor h m =
     m\<lparr>pub_velocity_factors := pub_velocity_factors m @ [velocity_factor_array h m]\<rparr>"

text \<open>\<^verbatim>\<open>std::numeric_limits<uint8_t>::max()\<close>, the size of a block of identifiers.\<close>

definition marker_offset :: "8 word" where
  "marker_offset = 255"

text \<open>
  \<^verbatim>\<open>publishVirtualWall\<close>: the loop over the observers. \<open>marker_id\<close> is the local variable of
  that name, which the loop body only reads. The store changes, as each visited instance has
  its wall poses reset.
\<close>

fun virtual_wall_loop ::
  "32 word \<Rightarrow> observer list \<Rightarrow> store \<times> marker_array \<Rightarrow> store \<times> marker_array" where
  "virtual_wall_loop marker_id [] s = s"
| "virtual_wall_loop marker_id (a # as) (h, markers) =
     (case h a of
        None \<Rightarrow> virtual_wall_loop marker_id as (h, markers)
      | Some md \<Rightarrow>
          let markers1 =
                (case stop_pose md of
                   Some p \<Rightarrow>
                     appendMarkerArray
                       (createStopVirtualWallMarker p (instance_name md) marker_id) markers
                 | None \<Rightarrow> markers);
              markers2 =
                (case slow_pose md of
                   Some p \<Rightarrow>
                     appendMarkerArray
                       (createSlowDownVirtualWallMarker p (instance_name md) marker_id) markers1
                 | None \<Rightarrow> markers1);
              markers3 =
                (case dead_pose md of
                   Some p \<Rightarrow>
                     appendMarkerArray
                       (createDeadLineVirtualWallMarker p (instance_name md) marker_id) markers2
                 | None \<Rightarrow> markers2);
              markers4 = appendMarkerArray (module_virtual_wall md) markers3
          in virtual_wall_loop marker_id as (h(a \<mapsto> resetWallPoses md), markers4))"

definition virtual_wall_markers :: "store \<Rightarrow> manager \<Rightarrow> store \<times> marker_array" where
  "virtual_wall_markers h m = virtual_wall_loop (ucast marker_offset) (observers m) (h, [])"

definition publishVirtualWall :: "store \<times> manager \<Rightarrow> store \<times> manager" where
  "publishVirtualWall w =
     (case w of (h, m) \<Rightarrow>
        (case virtual_wall_markers h m of (h', markers) \<Rightarrow>
           (h', m\<lparr>pub_virtual_wall := pub_virtual_wall m @ [markers]\<rparr>)))"

text \<open>
  \<^verbatim>\<open>publishMarker\<close>: each of the three inner loops adds \<open>marker_id\<close> to the identifier of a copy
  of every marker and pushes the copy to its batch.
\<close>

definition add_marker_id :: "32 word \<Rightarrow> marker_array \<Rightarrow> marker_array" where
  "add_marker_id marker_id ms = map (\<lambda>mk. mk\<lparr>ident := ident mk + marker_id\<rparr>) ms"

fun marker_loop ::
  "store \<Rightarrow> observer list \<Rightarrow> 32 word \<Rightarrow>
   marker_array \<times> marker_array \<times> marker_array \<Rightarrow>
   marker_array \<times> marker_array \<times> marker_array" where
  "marker_loop h [] marker_id batches = batches"
| "marker_loop h (a # as) marker_id (info, debug, drivable) =
     (case h a of
        None \<Rightarrow> marker_loop h as marker_id (info, debug, drivable)
      | Some md \<Rightarrow>
          marker_loop h as (marker_id + ucast marker_offset)
            (info @ add_marker_id marker_id (info_markers md),
             debug @ add_marker_id marker_id (debug_markers md),
             drivable @ add_marker_id marker_id (drivable_lanes_markers md)))"

text \<open>The three batches of one pass: info, debug and drivable lanes markers.\<close>

definition marker_batches ::
  "store \<Rightarrow> manager \<Rightarrow> marker_array \<times> marker_array \<times> marker_array" where
  "marker_batches h m =
     (case marker_loop h (observers m) (ucast marker_offset) ([], [], []) of
        (info, debug, drivable) \<Rightarrow>
          if observers m = []
          then (case idle_module_ptr m of
                  None \<Rightarrow> (info, debug, drivable)
                | Some idle \<Rightarrow>
                    (appendMarkerArray (info_markers idle) info,
                     appendMarkerArray (debug_markers idle) debug,
                     appendMarkerArray (drivable_lanes_markers idle) drivable))
          else (info, debug, drivable))"

definition publishMarker :: "store \<Rightarrow> manager \<Rightarrow> manager" where
  "publishMarker h m =
     (case marker_batches h m of
        (info, debug, drivable) \<Rightarrow>
          m\<lparr>pub_info_marker := pub_info_marker m @ [info],
            pub_debug_marker := pub_debug_marker m @ [debug],
            pub_drivable_lanes := pub_drivable_lanes m @ [drivable]\<rparr>)"

text \<open>
  \<^verbatim>\<open>reset\<close>: \<^verbatim>\<open>std::for_each\<close> over the observers calls \<open>onExit\<close> on every instance that is
  still live; the idle instance, if there is one, receives \<open>onExit\<close> and is destroyed. The
  second component of the result is the idle instance as it was when destroyed.
\<close>

fun exit_observers :: "observer list \<Rightarrow> store \<Rightarrow> store" where
  "exit_observers [] h = h"
| "exit_observers (a # as) h =
     (case h a of
        None \<Rightarrow> exit_observers as h
      | Some md \<Rightarrow> exit_observers as (h(a \<mapsto> onExit md)))"

definition reset :: "store \<times> manager \<Rightarrow> (store \<times> manager) \<times> scene_module option" where
  "reset w =
     (case w of (h, m) \<Rightarrow>
        let h' = exit_observers (observers m) h;
            m1 = m\<lparr>observers := []\<rparr>;
            destroyed = (case idle_module_ptr m1 of None \<Rightarrow> None | Some idle \<Rightarrow> Some (onExit idle));
            m2 = m1\<lparr>idle_module_ptr := None\<rparr>
        in ((h', m2\<lparr>pub_debug_marker := pub_debug_marker m2 @ [[]]\<rparr>), destroyed))"

section \<open>Sequences of operations\<close>

text \<open>
  The manager is driven by the orchestrator, and the instances are owned outside it: between
  two calls the owner may destroy an instance (\<open>DestroyInstance\<close>) or let a live one compute
  a new state (\<open>UpdateInstance\<close>).
\<close>

datatype operation =
    RegisterNewModule observer behavior_module_output
  | UpdateObserver
  | PublishSteeringFactor
  | PublishVelocityFactor
  | PublishVirtualWall
  | PublishMarker
  | Reset
  | DestroyInstance observer
  | UpdateInstance observer scene_module

fun step :: "operation \<Rightarrow> store \<times> manager \<Rightarrow> store \<times> manager" where
  "step (RegisterNewModule obs out) w = registerNewModule obs out w"
| "step UpdateObserver (h, m) = (h, updateObserver h m)"
| "step PublishSteeringFactor (h, m) = (h, publishSteeringFactor h m)"
| "step PublishVelocityFactor (h, m) = (h, publishVelocityFactor h m)"
| "step PublishVirtualWall w = publishVirtualWall w"
| "step PublishMarker (h, m) = (h, publishMarker h m)"
| "step Reset w = fst (reset w)"
| "step (DestroyInstance a) (h, m) = (h(a := None), m)"
| "step (UpdateInstance a md) (h, m) = ((if expired h a then h else h(a \<mapsto> md)), m)"

fun run :: "operation list \<Rightarrow> store \<times> manager \<Rightarrow> store \<times> manager" where
  "run [] w = w"
| "run (op # ops) w = run ops (step op w)"

section \<open>What an aggregation pass visits\<close>

text \<open>
  The instances an aggregation pass visits: those of the live entries of an observer list, in
  the order of the list, an instance once for each of its entries.
\<close>

fun live_modules :: "store \<Rightarrow> observer list \<Rightarrow> scene_module list" where
  "live_modules h [] = []"
| "live_modules h (a # as) =
     (case h a of None \<Rightarrow> live_modules h as | Some md \<Rightarrow> md # live_modules h as)"

text \<open>
  The batch of markers in blocks of identifiers, in the spec's words: the markers that
  \<open>get\<close> reads from each instance, offset by the block base of the instance; the first base
  is \<open>base\<close>, the next one is \<open>marker_offset\<close> further.
\<close>

fun offset_blocks ::
  "(scene_module \<Rightarrow> marker_array) \<Rightarrow> 32 word \<Rightarrow> scene_module list \<Rightarrow> marker_array" where
  "offset_blocks get base [] = []"
| "offset_blocks get base (md # mds) =
     add_marker_id base (get md) @ offset_blocks get (base + ucast marker_offset) mds"

text \<open>The wall markers that the visit of one instance adds to the batch of a pass.\<close>

definition wall_markers_of :: "32 word \<Rightarrow> scene_module \<Rightarrow> marker_array" where
  "wall_markers_of marker_id md =
     (case stop_pose md of
        Some p \<Rightarrow> createStopVirtualWallMarker p (instance_name md) marker_id
      | None \<Rightarrow> [])
     @ (case slow_pose md of
          Some p \<Rightarrow> createSlowDownVirtualWallMarker p (instance_name md) marker_id
        | None \<Rightarrow> [])
     @ (case dead_pose md of
          Some p \<Rightarrow> createDeadLineVirtualWallMarker p (instance_name md) marker_id
        | None \<Rightarrow> [])
     @ module_virtual_wall md"





text \<open>
  The local identifiers of a marker array lie in one block: each is at least 0 and smaller
  than the block size \<open>marker_offset\<close>, read as the signed integer it is.
\<close>

definition local_ids_in_block :: "marker_array \<Rightarrow> bool" where
  "local_ids_in_block ms =
     list_all (\<lambda>mk. 0 \<le> sint (ident mk) \<and> sint (ident mk) < uint marker_offset) ms"

text \<open>No marker of the one array has the identifier of a marker of the other.\<close>

definition no_shared_identifier :: "marker_array \<Rightarrow> marker_array \<Rightarrow> bool" where
  "no_shared_identifier xs ys = (set (map ident xs) \<inter> set (map ident ys) = {})"

section \<open>Concrete instances and managers\<close>

text \<open>A lane change instance that reports a stop pose, one info marker and a velocity factor.\<close>

definition example_module :: scene_module where
  "example_module =
     \<lparr>instance_name = ''lane_change'', module_planner_data = None,
      previous_module_output = None, time_keeper_reporters = [], hooks = [],
      execution_requested = False, stop_pose = Some 1, slow_pose = None, dead_pose = None,
      module_virtual_wall = [],
      info_markers = [\<lparr>marker_ns = ''info'', ident = 0, marker_text = [], marker_pose = 0\<rparr>],
      debug_markers = [], drivable_lanes_markers = [],
      module_steering_factor = \<lparr>sf_behavior = UNKNOWN, sf_direction = 0, sf_status = 0\<rparr>,
      module_velocity_factor = \<lparr>vf_behavior = LANE_CHANGE, vf_status = 0\<rparr>\<rparr>"

text \<open>A manager after construction: no observer, no idle instance, nothing published.\<close>

definition example_manager :: manager where
  "example_manager =
     \<lparr>manager_name = ''lane_change'', planner_data_ptr = Some 7, observers = [],
      idle_module_ptr = None, pub_processing_time = 3, pub_info_marker = [],
      pub_debug_marker = [], pub_virtual_wall = [], pub_drivable_lanes = [],
      pub_steering_factors = [], pub_velocity_factors = []\<rparr>"

text \<open>A store with two live instances, at the handles 0 and 1.\<close>

definition example_store :: store where
  "example_store = [0 \<mapsto> example_module, 1 \<mapsto> example_module]"

text \<open>An instance as registration leaves it, and the manager after both have been registered.\<close>

definition registered_module :: scene_module where
  "registered_module =
     onEntry (add_reporter 3 (setPreviousModuleOutput 5 (setData (Some 7) example_module)))"

definition registered_world :: "store \<times> manager" where
  "registered_world =
     run [RegisterNewModule 0 5, RegisterNewModule 1 5] (example_store, example_manager)"

definition registered_store :: store where
  "registered_store = [0 \<mapsto> registered_module, 1 \<mapsto> registered_module]"

definition registered_manager :: manager where
  "registered_manager = example_manager\<lparr>observers := [0, 1]\<rparr>"

text \<open>The instance at handle 0 is registered and then destroyed by its owner.\<close>

definition destroyed_world :: "store \<times> manager" where
  "destroyed_world =
     run [RegisterNewModule 0 5, DestroyInstance 0] (example_store, example_manager)"

text \<open>The same candidate is registered twice.\<close>

definition twice_registered_world :: "store \<times> manager" where
  "twice_registered_world =
     run [RegisterNewModule 0 5, RegisterNewModule 0 5] (example_store, example_manager)"

text \<open>A manager that holds an idle instance.\<close>

definition idle_manager :: manager where
  "idle_manager = example_manager\<lparr>idle_module_ptr := Some example_module\<rparr>"

text \<open>
  A manager that holds an idle instance, after the instance at handle 0 was registered and
  then destroyed by its owner.
\<close>

definition stale_idle_world :: "store \<times> manager" where
  "stale_idle_world =
     run [RegisterNewModule 0 5, DestroyInstance 0] (example_store, idle_manager)"

text \<open>An instance with two info markers, one of them with a negative identifier.\<close>

definition negative_id_module :: scene_module where
  "negative_id_module =
     example_module
       \<lparr>info_markers :=
          [\<lparr>marker_ns = ''info'', ident = 0, marker_text = [], marker_pose = 0\<rparr>,
           \<lparr>marker_ns = ''info'', ident = - 255, marker_text = [], marker_pose = 0\<rparr>]\<rparr>"

definition negative_id_store :: store where
  "negative_id_store = [0 \<mapsto> example_module, 1 \<mapsto> negative_id_module]"

section \<open>Pruning the observers\<close>

lemma remove_if_filter: "remove_if p xs = filter (\<lambda>x. \<not> p x) xs"
  by (induction xs) simp_all

lemma observers_updateObserver:
  "observers (updateObserver h m) = filter (\<lambda>a. \<not> expired h a) (observers m)"
  by (simp add: updateObserver_def remove_if_filter)

text \<open>
  C6: \<open>updateObserver\<close> changes the observer list only, to the list of its entries whose
  instance still exists, in their order (the pruned list is a subsequence of the old one); a
  second call with the same store changes nothing.
\<close>

theorem updateObserver_prunes_expired:
  "updateObserver h m = m\<lparr>observers := filter (\<lambda>a. \<not> expired h a) (observers m)\<rparr>
   \<and> subseq (observers (updateObserver h m)) (observers m)
   \<and> updateObserver h (updateObserver h m) = updateObserver h m"
  by (simp add: updateObserver_def remove_if_filter)

section \<open>Registration\<close>

text \<open>
  C3: with a candidate whose weak reference is expired, \<open>registerNewModule\<close> returns the
  store and the manager it was given, the observer list included.
\<close>

theorem registerNewModule_expired_noop:
  "expired h obs \<Longrightarrow> registerNewModule obs previous_output (h, m) = (h, m)"
  by (simp add: registerNewModule_def expired_def)

theorem registerNewModule_expired_noop_witness:
  "expired example_store 2
   \<and> registerNewModule 2 5 (example_store, example_manager) = (example_store, example_manager)"
proof -
  have dead: "expired example_store 2"
    by (simp add: expired_def example_store_def)
  from registerNewModule_expired_noop [OF dead] dead show ?thesis by simp
qed

lemma registered_world_eq: "registered_world = (registered_store, registered_manager)"
  by (simp add: registered_world_def registerNewModule_def example_store_def
      example_manager_def registered_module_def registered_store_def registered_manager_def)

section \<open>The instances a pass visits\<close>

lemma set_live_modules: "set (live_modules h as) = {md. \<exists>a \<in> set as. h a = Some md}"
  by (induction as) (auto split: option.splits)

lemma live_entry_live_modules:
  "a \<in> set as \<Longrightarrow> h a = Some md \<Longrightarrow> md \<in> set (live_modules h as)"
  by (auto simp: set_live_modules)

section \<open>Steering and velocity factors\<close>

lemma steering_factor_loop_eq:
  "steering_factor_loop h as fs =
     fs @ filter (\<lambda>f. sf_behavior f \<noteq> UNKNOWN)
            (map module_steering_factor (live_modules h as))"
  by (induction as arbitrary: fs) (simp_all split: option.splits)

lemma velocity_factor_loop_eq:
  "velocity_factor_loop h as fs =
     fs @ filter (\<lambda>f. vf_behavior f \<noteq> UNKNOWN)
            (map module_velocity_factor (live_modules h as))"
  by (induction as arbitrary: fs) (simp_all split: option.splits)

text \<open>
  C10: in the steering factor and the velocity factor aggregation, the factor record of a live
  instance of the observer list is in the emitted batch if and only if its classification is
  not \<open>UNKNOWN\<close>. The batch is the list of the factors of the live instances, in their order,
  without those classified \<open>UNKNOWN\<close>, and it is what the pass publishes.
\<close>

theorem factor_batches_filter_unknown:
  assumes "a \<in> set (observers m)" and "h a = Some md"
  shows "(module_steering_factor md \<in> set (factors (steering_factor_array h m))
            \<longleftrightarrow> sf_behavior (module_steering_factor md) \<noteq> UNKNOWN)
         \<and> (module_velocity_factor md \<in> set (factors (velocity_factor_array h m))
            \<longleftrightarrow> vf_behavior (module_velocity_factor md) \<noteq> UNKNOWN)
         \<and> factors (steering_factor_array h m) =
             filter (\<lambda>f. sf_behavior f \<noteq> UNKNOWN)
               (map module_steering_factor (live_modules h (observers m)))
         \<and> factors (velocity_factor_array h m) =
             filter (\<lambda>f. vf_behavior f \<noteq> UNKNOWN)
               (map module_velocity_factor (live_modules h (observers m)))
         \<and> last (pub_steering_factors (publishSteeringFactor h m)) = steering_factor_array h m
         \<and> last (pub_velocity_factors (publishVelocityFactor h m)) = velocity_factor_array h m"
proof -
  from assms have "md \<in> set (live_modules h (observers m))"
    by (rule live_entry_live_modules)
  then show ?thesis
    by (simp add: steering_factor_array_def velocity_factor_array_def steering_factor_loop_eq
        velocity_factor_loop_eq publishSteeringFactor_def publishVelocityFactor_def)
qed

theorem factor_batches_filter_unknown_witness:
  "0 \<in> set (observers (snd registered_world))
   \<and> fst registered_world 0 = Some registered_module
   \<and> sf_behavior (module_steering_factor registered_module) = UNKNOWN
   \<and> module_steering_factor registered_module
       \<notin> set (factors (steering_factor_array (fst registered_world) (snd registered_world)))
   \<and> vf_behavior (module_velocity_factor registered_module) = LANE_CHANGE
   \<and> module_velocity_factor registered_module
       \<in> set (factors (velocity_factor_array (fst registered_world) (snd registered_world)))"
proof -
  have entry: "0 \<in> set (observers (snd registered_world))"
    by (simp add: registered_world_eq registered_manager_def)
  have live: "fst registered_world 0 = Some registered_module"
    by (simp add: registered_world_eq registered_store_def)
  have steering: "sf_behavior (module_steering_factor registered_module) = UNKNOWN"
    by (simp add: registered_module_def example_module_def onEntry_def add_reporter_def
        setPreviousModuleOutput_def setData_def)
  have velocity: "vf_behavior (module_velocity_factor registered_module) = LANE_CHANGE"
    by (simp add: registered_module_def example_module_def onEntry_def add_reporter_def
        setPreviousModuleOutput_def setData_def)
  note batches = factor_batches_filter_unknown
    [where h = "fst registered_world" and m = "snd registered_world", OF entry live]
  from batches [THEN conjunct1] steering
  have absent: "module_steering_factor registered_module
      \<notin> set (factors (steering_factor_array (fst registered_world) (snd registered_world)))"
    by simp
  from batches [THEN conjunct2, THEN conjunct1] velocity
  have present: "module_velocity_factor registered_module
      \<in> set (factors (velocity_factor_array (fst registered_world) (snd registered_world)))"
    by simp
  from entry live steering absent velocity present show ?thesis
    by (intro conjI)
qed

section \<open>Virtual walls\<close>

lemma virtual_wall_loop_step:
  "h a = Some md \<Longrightarrow>
   virtual_wall_loop i (a # as) (h, ms) =
     virtual_wall_loop i as (h(a \<mapsto> resetWallPoses md), ms @ wall_markers_of i md)"
  by (simp add: wall_markers_of_def appendMarkerArray_def split: option.splits)


declare virtual_wall_loop.simps(2) [simp del]




section \<open>Diagnostic markers\<close>

lemma marker_loop_eq:
  "marker_loop h as base (info, debug, drivable) =
     (info @ offset_blocks info_markers base (live_modules h as),
      debug @ offset_blocks debug_markers base (live_modules h as),
      drivable @ offset_blocks drivable_lanes_markers base (live_modules h as))"
  by (induction as arbitrary: base info debug drivable) (simp_all split: option.splits)


lemma marker_batches_nonempty:
  "observers m \<noteq> [] \<Longrightarrow>
   marker_batches h m =
     (offset_blocks info_markers (ucast marker_offset) (live_modules h (observers m)),
      offset_blocks debug_markers (ucast marker_offset) (live_modules h (observers m)),
      offset_blocks drivable_lanes_markers (ucast marker_offset) (live_modules h (observers m)))"
  by (simp add: marker_batches_def marker_loop_eq)

section \<open>Live entries appear in every pass\<close>







section \<open>Registration of a live candidate\<close>

lemma destroyed_world_eq:
  "destroyed_world = (example_store(0 := None), example_manager\<lparr>observers := [0]\<rparr>)"
  by (simp add: destroyed_world_def registerNewModule_def example_store_def
      example_manager_def)








section \<open>Admission\<close>

text \<open>
  Against C1 as stated: after the one registered instance has been destroyed and before the
  next pruning, no entry of the observer list is live, and \<open>canLaunchNewModule\<close> is false.
\<close>

theorem canLaunchNewModule_stale_entry:
  "live_count (fst destroyed_world) (snd destroyed_world) = 0
   \<and> \<not> canLaunchNewModule (snd destroyed_world)"
  by (simp add: destroyed_world_eq live_count_def canLaunchNewModule_def expired_def)

text \<open>
  C1, amended: after every sequence of operations, \<open>canLaunchNewModule\<close> is true if and only
  if the observer list has no entry at all, live or expired. So it is true only if no live
  entry exists, and right after \<open>updateObserver\<close> it is true if and only if no live entry
  exists.
\<close>

theorem canLaunchNewModule_iff_no_entry:
  "(canLaunchNewModule (snd (run ops w)) \<longleftrightarrow> observers (snd (run ops w)) = [])
   \<and> (canLaunchNewModule (snd (run ops w)) \<longrightarrow>
        live_count (fst (run ops w)) (snd (run ops w)) = 0)
   \<and> (canLaunchNewModule (snd (step UpdateObserver (run ops w))) \<longleftrightarrow>
        live_count (fst (run ops w)) (snd (run ops w)) = 0)"
proof -
  obtain h m where w: "run ops w = (h, m)" by (cases "run ops w")
  show ?thesis
    by (simp add: w canLaunchNewModule_def live_count_def observers_updateObserver)
qed

theorem canLaunchNewModule_iff_no_entry_witness:
  "observers (snd destroyed_world) = [0]
   \<and> \<not> canLaunchNewModule (snd destroyed_world)
   \<and> live_count (fst destroyed_world) (snd destroyed_world) = 0
   \<and> canLaunchNewModule (snd (step UpdateObserver destroyed_world))
   \<and> canLaunchNewModule (snd (run [] (example_store, example_manager)))
   \<and> live_count (fst (run [] (example_store, example_manager)))
        (snd (run [] (example_store, example_manager))) = 0"
proof -
  have entries: "observers (snd destroyed_world) = [0]"
    by (simp add: destroyed_world_eq)
  have count: "live_count (fst destroyed_world) (snd destroyed_world) = 0"
    by (simp add: destroyed_world_eq live_count_def expired_def)
  note stale = canLaunchNewModule_iff_no_entry
    [of "[RegisterNewModule 0 5, DestroyInstance 0]" "(example_store, example_manager)",
     folded destroyed_world_def]
  from stale [THEN conjunct1] entries have blocked: "\<not> canLaunchNewModule (snd destroyed_world)"
    by simp
  from stale [THEN conjunct2, THEN conjunct2] count
  have pruned: "canLaunchNewModule (snd (step UpdateObserver destroyed_world))"
    by simp
  note fresh = canLaunchNewModule_iff_no_entry [of "[]" "(example_store, example_manager)"]
  have "observers (snd (run [] (example_store, example_manager))) = []"
    by (simp add: example_manager_def)
  with fresh [THEN conjunct1]
  have free: "canLaunchNewModule (snd (run [] (example_store, example_manager)))"
    by simp
  from fresh [THEN conjunct2, THEN conjunct1, THEN mp, OF free]
  have "live_count (fst (run [] (example_store, example_manager)))
        (snd (run [] (example_store, example_manager))) = 0" .
  with entries blocked count pruned free show ?thesis by (intro conjI)
qed

section \<open>The idle instance\<close>

text \<open>
  Against C2 as stated: once \<open>getIdleModule\<close> has moved the idle instance out, the probe
  dereferences the null pointer.
\<close>

theorem isExecutionRequested_after_getIdleModule_fails:
  "fst (getIdleModule idle_manager) = Some example_module
   \<and> isExecutionRequested 5 (snd (getIdleModule idle_manager)) = Inl NullPointerDereference"
  by (simp add: getIdleModule_def isExecutionRequested_def idle_manager_def)

text \<open>
  C2, amended: \<open>getIdleModule\<close> leaves the manager without an idle instance, and
  \<open>isExecutionRequested\<close> does not recreate one: on the null pointer the probe is a null
  dereference, and that is its only failure. With an idle instance present, the probe injects
  the planner data and the previous output into that instance, refreshes it, reads its
  execution request, and keeps the instance.
\<close>

theorem isExecutionRequested_probes_retained_idle:
  "getIdleModule m = (idle_module_ptr m, m\<lparr>idle_module_ptr := None\<rparr>)
   \<and> isExecutionRequested out (snd (getIdleModule m)) = Inl NullPointerDereference
   \<and> (isExecutionRequested out m = Inl NullPointerDereference \<longleftrightarrow> idle_module_ptr m = None)
   \<and> (idle_module_ptr m = Some idle \<longrightarrow>
        isExecutionRequested out m =
          Inr (execution_requested
                 (updateData (setPreviousModuleOutput out (setData (planner_data_ptr m) idle))),
               m\<lparr>idle_module_ptr :=
                    Some (updateData
                            (setPreviousModuleOutput out (setData (planner_data_ptr m) idle)))\<rparr>))"
  by (cases "idle_module_ptr m")
     (simp_all add: getIdleModule_def isExecutionRequested_def Let_def)

theorem isExecutionRequested_probes_retained_idle_witness:
  "idle_module_ptr idle_manager = Some example_module
   \<and> isExecutionRequested 5 idle_manager =
       Inr (False,
            idle_manager\<lparr>idle_module_ptr :=
              Some (updateData (setPreviousModuleOutput 5 (setData (Some 7) example_module)))\<rparr>)"
proof -
  have idle: "idle_module_ptr idle_manager = Some example_module"
    by (simp add: idle_manager_def)
  have data: "planner_data_ptr idle_manager = Some 7"
    by (simp add: idle_manager_def example_manager_def)
  have probe: "execution_requested
      (updateData (setPreviousModuleOutput 5 (setData (Some 7) example_module))) = False"
    by (simp add: updateData_def setPreviousModuleOutput_def setData_def example_module_def)
  from isExecutionRequested_probes_retained_idle
         [of idle_manager 5 example_module, THEN conjunct2, THEN conjunct2, THEN conjunct2,
          THEN mp, OF idle]
  have "isExecutionRequested 5 idle_manager =
       Inr (False,
            idle_manager\<lparr>idle_module_ptr :=
              Some (updateData (setPreviousModuleOutput 5 (setData (Some 7) example_module)))\<rparr>)"
    by (simp only: data probe)
  with idle show ?thesis by (intro conjI)
qed

section \<open>Reset\<close>

lemma exit_observers_eq:
  "exit_observers as h a =
     map_option (\<lambda>md. md\<lparr>hooks := hooks md @ replicate (count_list as a) OnExit\<rparr>) (h a)"
proof (induction as arbitrary: h)
  case Nil
  show ?case by (cases "h a") simp_all
next
  case (Cons x xs)
  show ?case
    by (cases "h x") (auto simp: Cons.IH onExit_def replicate_app_Cons_same split: option.splits)
qed

lemma count_list_distinct: "distinct xs \<Longrightarrow> a \<in> set xs \<Longrightarrow> count_list xs a = 1"
  by (induction xs) auto

lemma twice_registered_world_eq:
  "twice_registered_world =
     (example_store(0 \<mapsto> onEntry (add_reporter 3 (setPreviousModuleOutput 5
                            (setData (Some 7) registered_module)))),
      example_manager\<lparr>observers := [0, 0]\<rparr>)"
  by (simp add: twice_registered_world_def registerNewModule_def example_store_def
      example_manager_def registered_module_def)

text \<open>
  Against C5 as stated: the manager observes one live instance, through two entries, as the
  same candidate was registered twice; \<open>reset\<close> calls \<open>onExit\<close> on it twice.
\<close>

theorem reset_exits_twice_registered_twice:
  "set (observers (snd twice_registered_world)) = {0}
   \<and> map_option hooks (fst twice_registered_world 0) = Some [OnEntry, OnEntry]
   \<and> map_option hooks (fst (fst (reset twice_registered_world)) 0)
       = Some [OnEntry, OnEntry, OnExit, OnExit]"
  by (simp add: twice_registered_world_eq reset_def registered_module_def example_module_def
      onEntry_def onExit_def add_reporter_def setPreviousModuleOutput_def setData_def)

text \<open>
  C5, amended: \<open>reset\<close> calls \<open>onExit\<close> on a live instance once for each entry of the
  observer list that refers to it, so exactly once when the entries are distinct, and on no
  other instance of the store. It leaves the observer list empty and the manager without idle
  instance; the idle instance, if there was one, received \<open>onExit\<close> before it was destroyed;
  and an empty marker array is published as debug markers.
\<close>

theorem reset_exits_every_live_entry:
  "fst (fst (reset (h, m))) a =
     map_option (\<lambda>md. md\<lparr>hooks := hooks md @ replicate (count_list (observers m) a) OnExit\<rparr>)
       (h a)
   \<and> (distinct (observers m) \<and> a \<in> set (observers m) \<and> h a = Some md \<longrightarrow>
        fst (fst (reset (h, m))) a = Some (onExit md))
   \<and> (a \<notin> set (observers m) \<longrightarrow> fst (fst (reset (h, m))) a = h a)
   \<and> observers (snd (fst (reset (h, m)))) = []
   \<and> idle_module_ptr (snd (fst (reset (h, m)))) = None
   \<and> snd (reset (h, m)) = map_option onExit (idle_module_ptr m)
   \<and> pub_debug_marker (snd (fst (reset (h, m)))) = pub_debug_marker m @ [[]]"
proof (intro conjI impI)
  show "fst (fst (reset (h, m))) a =
     map_option (\<lambda>md. md\<lparr>hooks := hooks md @ replicate (count_list (observers m) a) OnExit\<rparr>)
       (h a)"
    by (simp add: reset_def Let_def exit_observers_eq)
next
  assume "distinct (observers m) \<and> a \<in> set (observers m) \<and> h a = Some md"
  then have "count_list (observers m) a = 1" and "h a = Some md"
    by (simp_all add: count_list_distinct)
  then show "fst (fst (reset (h, m))) a = Some (onExit md)"
    by (simp add: reset_def Let_def exit_observers_eq onExit_def)
next
  assume "a \<notin> set (observers m)"
  then have "count_list (observers m) a = 0" by simp
  then show "fst (fst (reset (h, m))) a = h a"
    by (cases "h a") (simp_all add: reset_def Let_def exit_observers_eq)
next
  show "observers (snd (fst (reset (h, m)))) = []"
    by (simp add: reset_def Let_def)
next
  show "idle_module_ptr (snd (fst (reset (h, m)))) = None"
    by (simp add: reset_def Let_def)
next
  show "snd (reset (h, m)) = map_option onExit (idle_module_ptr m)"
    by (cases "idle_module_ptr m") (simp_all add: reset_def Let_def)
next
  show "pub_debug_marker (snd (fst (reset (h, m)))) = pub_debug_marker m @ [[]]"
    by (simp add: reset_def Let_def)
qed

theorem reset_exits_every_live_entry_witness:
  "distinct (observers registered_manager)
   \<and> 0 \<in> set (observers registered_manager)
   \<and> registered_store 0 = Some registered_module
   \<and> fst (fst (reset (registered_store, registered_manager))) 0 = Some (onExit registered_module)
   \<and> 2 \<notin> set (observers registered_manager)
   \<and> fst (fst (reset (registered_store, registered_manager))) 2 = None"
proof -
  have entries: "distinct (observers registered_manager)"
    "0 \<in> set (observers registered_manager)" "2 \<notin> set (observers registered_manager)"
    by (simp_all add: registered_manager_def)
  have live: "registered_store 0 = Some registered_module"
    and absent: "registered_store 2 = None"
    by (simp_all add: registered_store_def)
  from entries(1,2) live
  have observed: "distinct (observers registered_manager)
      \<and> 0 \<in> set (observers registered_manager) \<and> registered_store 0 = Some registered_module"
    by (intro conjI)
  from reset_exits_every_live_entry
         [of registered_store registered_manager 0 registered_module,
          THEN conjunct2, THEN conjunct1, THEN mp, OF observed]
  have exited: "fst (fst (reset (registered_store, registered_manager))) 0
      = Some (onExit registered_module)" .
  from reset_exits_every_live_entry
         [of registered_store registered_manager 2 registered_module,
          THEN conjunct2, THEN conjunct2, THEN conjunct1, THEN mp, OF entries(3)] absent
  have untouched: "fst (fst (reset (registered_store, registered_manager))) 2 = None"
    by simp
  from entries live exited untouched show ?thesis by (intro conjI)
qed

section \<open>Identifiers of the virtual wall markers\<close>

lemma wall_markers_of_registered:
  "wall_markers_of i registered_module =
     [\<lparr>marker_ns = ''stop_virtual_wall'', ident = i, marker_text = ''lane_change'',
       marker_pose = 1\<rparr>]"
  by (simp add: wall_markers_of_def registered_module_def example_module_def onEntry_def
      add_reporter_def setPreviousModuleOutput_def setData_def createStopVirtualWallMarker_def)

text \<open>
  C4: \<open>publishVirtualWall\<close> never advances \<open>marker_id\<close>. With two live instances that each
  report a stop pose, the pass emits two stop wall markers, one for each instance, and both
  carry the identifier 255.
\<close>

theorem publishVirtualWall_reuses_identifier:
  "observers registered_manager = [0, 1]
   \<and> live_modules registered_store (observers registered_manager)
       = [registered_module, registered_module]
   \<and> stop_pose registered_module = Some 1
   \<and> map ident (snd (virtual_wall_markers registered_store registered_manager)) = [255, 255]"
proof -
  have "stop_pose registered_module = Some 1"
    by (simp add: registered_module_def example_module_def onEntry_def add_reporter_def
        setPreviousModuleOutput_def setData_def)
  then show ?thesis
    by (simp add: virtual_wall_markers_def registered_store_def registered_manager_def
        virtual_wall_loop_step wall_markers_of_registered marker_offset_def)
qed

section \<open>Substitution of the idle instance\<close>

lemma stale_idle_world_eq:
  "stale_idle_world = (example_store(0 := None), idle_manager\<lparr>observers := [0]\<rparr>)"
  by (simp add: stale_idle_world_def registerNewModule_def example_store_def
      idle_manager_def example_manager_def)

text \<open>
  Against C7 as stated: the manager holds an idle instance with an info marker, and its only
  observer entry is expired, so no instance is live; yet all three batches are empty.
\<close>

theorem publishMarker_stale_entry_no_idle_markers:
  "live_count (fst stale_idle_world) (snd stale_idle_world) = 0
   \<and> idle_module_ptr (snd stale_idle_world) = Some example_module
   \<and> info_markers example_module
       = [\<lparr>marker_ns = ''info'', ident = 0, marker_text = [], marker_pose = 0\<rparr>]
   \<and> marker_batches (fst stale_idle_world) (snd stale_idle_world) = ([], [], [])"
  by (simp add: stale_idle_world_eq live_count_def expired_def idle_manager_def
      example_manager_def example_module_def marker_batches_def)

text \<open>
  C7, amended: when the observer list has no entry at all and an idle instance is present, the
  three batches are the marker sets of the idle instance. When the list has an entry, live or
  expired, the batches are the markers of the live instances in their blocks, and nothing of
  the idle instance; in particular, with at least one live instance the batches are the same
  whatever the idle instance is. The pass publishes the three batches.
\<close>

theorem marker_batches_idle_substitution:
  "(observers m = [] \<and> idle_module_ptr m = Some idle \<longrightarrow>
      marker_batches h m = (info_markers idle, debug_markers idle, drivable_lanes_markers idle))
   \<and> (observers m \<noteq> [] \<longrightarrow>
        marker_batches h m =
          (offset_blocks info_markers (ucast marker_offset) (live_modules h (observers m)),
           offset_blocks debug_markers (ucast marker_offset) (live_modules h (observers m)),
           offset_blocks drivable_lanes_markers (ucast marker_offset)
             (live_modules h (observers m))))
   \<and> (0 < live_count h m \<longrightarrow>
        marker_batches h (m\<lparr>idle_module_ptr := other\<rparr>) = marker_batches h m
        \<and> marker_batches h m =
          (offset_blocks info_markers (ucast marker_offset) (live_modules h (observers m)),
           offset_blocks debug_markers (ucast marker_offset) (live_modules h (observers m)),
           offset_blocks drivable_lanes_markers (ucast marker_offset)
             (live_modules h (observers m))))
   \<and> publishMarker h m =
       m\<lparr>pub_info_marker := pub_info_marker m @ [fst (marker_batches h m)],
         pub_debug_marker := pub_debug_marker m @ [fst (snd (marker_batches h m))],
         pub_drivable_lanes := pub_drivable_lanes m @ [snd (snd (marker_batches h m))]\<rparr>"
proof (intro conjI impI)
  assume "observers m = [] \<and> idle_module_ptr m = Some idle"
  then show "marker_batches h m
      = (info_markers idle, debug_markers idle, drivable_lanes_markers idle)"
    by (simp add: marker_batches_def appendMarkerArray_def)
next
  assume "observers m \<noteq> []"
  then show "marker_batches h m =
          (offset_blocks info_markers (ucast marker_offset) (live_modules h (observers m)),
           offset_blocks debug_markers (ucast marker_offset) (live_modules h (observers m)),
           offset_blocks drivable_lanes_markers (ucast marker_offset)
             (live_modules h (observers m)))"
    by (rule marker_batches_nonempty)
next
  assume "0 < live_count h m"
  then have ne: "observers m \<noteq> []"
    by (auto simp: live_count_def)
  then have "observers (m\<lparr>idle_module_ptr := other\<rparr>) \<noteq> []" by simp
  then show "marker_batches h (m\<lparr>idle_module_ptr := other\<rparr>) = marker_batches h m"
    using ne by (simp add: marker_batches_nonempty)
  from ne show "marker_batches h m =
          (offset_blocks info_markers (ucast marker_offset) (live_modules h (observers m)),
           offset_blocks debug_markers (ucast marker_offset) (live_modules h (observers m)),
           offset_blocks drivable_lanes_markers (ucast marker_offset)
             (live_modules h (observers m)))"
    by (rule marker_batches_nonempty)
next
  show "publishMarker h m =
       m\<lparr>pub_info_marker := pub_info_marker m @ [fst (marker_batches h m)],
         pub_debug_marker := pub_debug_marker m @ [fst (snd (marker_batches h m))],
         pub_drivable_lanes := pub_drivable_lanes m @ [snd (snd (marker_batches h m))]\<rparr>"
    by (simp add: publishMarker_def split: prod.splits)
qed

theorem marker_batches_idle_substitution_witness:
  "observers idle_manager = [] \<and> idle_module_ptr idle_manager = Some example_module
   \<and> marker_batches example_store idle_manager =
       (info_markers example_module, debug_markers example_module,
        drivable_lanes_markers example_module)
   \<and> observers (snd stale_idle_world) \<noteq> []
   \<and> marker_batches (fst stale_idle_world) (snd stale_idle_world) = ([], [], [])
   \<and> 0 < live_count registered_store registered_manager
   \<and> marker_batches registered_store (registered_manager\<lparr>idle_module_ptr := Some example_module\<rparr>)
       = marker_batches registered_store registered_manager"
proof -
  have idle: "observers idle_manager = [] \<and> idle_module_ptr idle_manager = Some example_module"
    by (simp add: idle_manager_def example_manager_def)
  from marker_batches_idle_substitution
         [of idle_manager example_module example_store, THEN conjunct1, THEN mp, OF idle]
  have substituted: "marker_batches example_store idle_manager =
       (info_markers example_module, debug_markers example_module,
        drivable_lanes_markers example_module)" .
  have stale: "observers (snd stale_idle_world) \<noteq> []"
    by (simp add: stale_idle_world_eq)
  from marker_batches_idle_substitution
         [of "snd stale_idle_world" example_module "fst stale_idle_world",
          THEN conjunct2, THEN conjunct1, THEN mp, OF stale]
  have empty: "marker_batches (fst stale_idle_world) (snd stale_idle_world) = ([], [], [])"
    by (simp add: stale_idle_world_eq)
  have live: "0 < live_count registered_store registered_manager"
    by (simp add: live_count_def registered_store_def registered_manager_def expired_def)
  from marker_batches_idle_substitution
         [of registered_manager example_module registered_store "Some example_module",
          THEN conjunct2, THEN conjunct2, THEN conjunct1, THEN mp, OF live, THEN conjunct1]
  have same: "marker_batches registered_store
      (registered_manager\<lparr>idle_module_ptr := Some example_module\<rparr>)
      = marker_batches registered_store registered_manager" .
  from idle substituted stale empty live same show ?thesis by (intro conjI) simp_all
qed

section \<open>Identifiers of the diagnostic markers\<close>

lemma uint_of_nonneg_sint:
  fixes x :: "32 word"
  assumes "0 \<le> sint x"
  shows "uint x = sint x"
proof -
  have "sint x < 2 ^ 32"
    using sint_less [of x] by simp
  with assms show ?thesis
    by (simp add: uint_sint take_bit_int_eq_self)
qed

lemma uint_add_block:
  fixes x :: "32 word"
  assumes "uint x < 255" and "k \<le> 510" and "0 \<le> k"
  shows "uint (x + word_of_int k) = uint x + k"
proof -
  have "0 \<le> uint x" by simp
  with assms have "uint x + k < 2 ^ 32" by simp
  moreover have "uint (word_of_int k :: 32 word) = k"
    using assms by (simp add: uint_word_of_int_eq take_bit_int_eq_self)
  ultimately show ?thesis
    by (simp add: uint_add_lem [THEN iffD1])
qed

lemma block_ids_differ:
  fixes x y :: "32 word"
  assumes "0 \<le> sint x" "sint x < 255" "0 \<le> sint y" "sint y < 255"
  shows "x + 255 \<noteq> y + 510"
proof
  assume eq: "x + 255 = y + 510"
  from assms have x: "uint x < 255" and y: "uint y < 255"
    by (simp_all add: uint_of_nonneg_sint)
  from uint_add_block [OF x, of 255] have "uint (x + 255) = uint x + 255" by simp
  moreover from uint_add_block [OF y, of 510] have "uint (y + 510) = uint y + 510" by simp
  ultimately have "uint x + 255 = uint y + 510" using eq by simp
  with x show False by simp
qed

lemma ident_add_marker_id: "map ident (add_marker_id b ms) = map (\<lambda>i. i + b) (map ident ms)"
  by (simp add: add_marker_id_def)

lemma distinct_add_marker_id:
  "distinct (map ident (add_marker_id b ms)) = distinct (map ident ms)"
proof -
  have "distinct (map (\<lambda>i. i + b) is) = distinct is" for "is" :: "32 word list"
    by (simp add: distinct_map inj_on_def)
  then show ?thesis by (simp only: ident_add_marker_id)
qed

lemma two_blocks_no_shared_identifier:
  assumes "local_ids_in_block xs" and "local_ids_in_block ys"
  shows "no_shared_identifier (add_marker_id 255 xs) (add_marker_id 510 ys)"
proof -
  have "ident x + 255 \<noteq> ident y + 510" if "x \<in> set xs" and "y \<in> set ys" for x y
  proof -
    from assms that
    have "0 \<le> sint (ident x)" "sint (ident x) < 255" "0 \<le> sint (ident y)" "sint (ident y) < 255"
      by (auto simp: local_ids_in_block_def list_all_iff marker_offset_def)
    then show ?thesis by (rule block_ids_differ)
  qed
  then show ?thesis
    by (auto simp: no_shared_identifier_def ident_add_marker_id)
qed

lemma two_blocks_distinct:
  assumes "no_shared_identifier (add_marker_id b xs) (add_marker_id c ys)"
    and "distinct (map ident xs)" and "distinct (map ident ys)"
  shows "distinct (map ident (add_marker_id b xs @ add_marker_id c ys))"
proof -
  have "distinct (map ident (add_marker_id b xs))" and "distinct (map ident (add_marker_id c ys))"
    using assms(2,3) by (simp_all only: distinct_add_marker_id)
  with assms(1) show ?thesis
    by (simp only: map_append distinct_append no_shared_identifier_def)
qed

text \<open>
  C8, amended: in one pass over two live instances whose local marker identifiers are all at
  least 0 and smaller than the block size, the markers of the first instance are offset by
  255 and those of the second by 510, and in each of the three batches no marker of the one
  instance has the identifier of a marker of the other. So a batch has no duplicate identifier
  when neither instance has one among its own markers of that kind.
\<close>

theorem marker_ids_of_two_instances_disjoint:
  assumes "live_modules h (observers m) = [ma, mb]"
    and "local_ids_in_block (info_markers ma)" and "local_ids_in_block (info_markers mb)"
    and "local_ids_in_block (debug_markers ma)" and "local_ids_in_block (debug_markers mb)"
    and "local_ids_in_block (drivable_lanes_markers ma)"
    and "local_ids_in_block (drivable_lanes_markers mb)"
  shows "marker_batches h m =
           (add_marker_id 255 (info_markers ma) @ add_marker_id 510 (info_markers mb),
            add_marker_id 255 (debug_markers ma) @ add_marker_id 510 (debug_markers mb),
            add_marker_id 255 (drivable_lanes_markers ma)
              @ add_marker_id 510 (drivable_lanes_markers mb))
         \<and> no_shared_identifier
             (add_marker_id 255 (info_markers ma)) (add_marker_id 510 (info_markers mb))
         \<and> no_shared_identifier
             (add_marker_id 255 (debug_markers ma)) (add_marker_id 510 (debug_markers mb))
         \<and> no_shared_identifier
             (add_marker_id 255 (drivable_lanes_markers ma))
             (add_marker_id 510 (drivable_lanes_markers mb))
         \<and> (distinct (map ident (info_markers ma)) \<and> distinct (map ident (info_markers mb))
              \<longrightarrow> distinct (map ident (fst (marker_batches h m))))
         \<and> (distinct (map ident (debug_markers ma)) \<and> distinct (map ident (debug_markers mb))
              \<longrightarrow> distinct (map ident (fst (snd (marker_batches h m)))))
         \<and> (distinct (map ident (drivable_lanes_markers ma))
              \<and> distinct (map ident (drivable_lanes_markers mb))
              \<longrightarrow> distinct (map ident (snd (snd (marker_batches h m)))))"
proof -
  from assms(1) have "observers m \<noteq> []" by auto
  with assms(1) have batches: "marker_batches h m =
           (add_marker_id 255 (info_markers ma) @ add_marker_id 510 (info_markers mb),
            add_marker_id 255 (debug_markers ma) @ add_marker_id 510 (debug_markers mb),
            add_marker_id 255 (drivable_lanes_markers ma)
              @ add_marker_id 510 (drivable_lanes_markers mb))"
    by (simp add: marker_batches_nonempty marker_offset_def)
  have info: "no_shared_identifier
             (add_marker_id 255 (info_markers ma)) (add_marker_id 510 (info_markers mb))"
    using assms(2,3) by (rule two_blocks_no_shared_identifier)
  have debug: "no_shared_identifier
             (add_marker_id 255 (debug_markers ma)) (add_marker_id 510 (debug_markers mb))"
    using assms(4,5) by (rule two_blocks_no_shared_identifier)
  have drivable: "no_shared_identifier
             (add_marker_id 255 (drivable_lanes_markers ma))
             (add_marker_id 510 (drivable_lanes_markers mb))"
    using assms(6,7) by (rule two_blocks_no_shared_identifier)
  show ?thesis
    unfolding batches fst_conv snd_conv
  proof (intro conjI impI refl)
    assume "distinct (map ident (info_markers ma)) \<and> distinct (map ident (info_markers mb))"
    with info show "distinct (map ident (add_marker_id 255 (info_markers ma)
        @ add_marker_id 510 (info_markers mb)))"
      by (intro two_blocks_distinct) simp_all
  next
    assume "distinct (map ident (debug_markers ma)) \<and> distinct (map ident (debug_markers mb))"
    with debug show "distinct (map ident (add_marker_id 255 (debug_markers ma)
        @ add_marker_id 510 (debug_markers mb)))"
      by (intro two_blocks_distinct) simp_all
  next
    assume "distinct (map ident (drivable_lanes_markers ma))
        \<and> distinct (map ident (drivable_lanes_markers mb))"
    with drivable show "distinct (map ident (add_marker_id 255 (drivable_lanes_markers ma)
        @ add_marker_id 510 (drivable_lanes_markers mb)))"
      by (intro two_blocks_distinct) simp_all
  qed (rule info debug drivable)+
qed

theorem marker_ids_of_two_instances_disjoint_witness:
  "live_modules registered_store (observers registered_manager)
     = [registered_module, registered_module]
   \<and> map ident (info_markers registered_module) = [0]
   \<and> local_ids_in_block (info_markers registered_module)
   \<and> local_ids_in_block (debug_markers registered_module)
   \<and> local_ids_in_block (drivable_lanes_markers registered_module)
   \<and> map ident (fst (marker_batches registered_store registered_manager)) = [255, 510]
   \<and> distinct (map ident (fst (marker_batches registered_store registered_manager)))"
proof -
  have markers: "info_markers registered_module
        = [\<lparr>marker_ns = ''info'', ident = 0, marker_text = [], marker_pose = 0\<rparr>]"
    "debug_markers registered_module = []" "drivable_lanes_markers registered_module = []"
    by (simp_all add: registered_module_def example_module_def onEntry_def add_reporter_def
        setPreviousModuleOutput_def setData_def)
  have live: "live_modules registered_store (observers registered_manager)
      = [registered_module, registered_module]"
    by (simp add: registered_store_def registered_manager_def)
  have info: "local_ids_in_block (info_markers registered_module)"
    by (simp add: markers local_ids_in_block_def marker_offset_def)
  have debug: "local_ids_in_block (debug_markers registered_module)"
    by (simp add: markers local_ids_in_block_def)
  have drivable: "local_ids_in_block (drivable_lanes_markers registered_module)"
    by (simp add: markers local_ids_in_block_def)
  note blocks = marker_ids_of_two_instances_disjoint
    [OF live info info debug debug drivable drivable]
  from blocks [THEN conjunct1]
  have idents: "map ident (fst (marker_batches registered_store registered_manager)) = [255, 510]"
    by (simp add: markers add_marker_id_def)
  have local: "distinct (map ident (info_markers registered_module))
      \<and> distinct (map ident (info_markers registered_module))"
    by (simp add: markers)
  from blocks [THEN conjunct2, THEN conjunct2, THEN conjunct2, THEN conjunct2,
      THEN conjunct1, THEN mp, OF local]
  have "distinct (map ident (fst (marker_batches registered_store registered_manager)))" .
  with live info debug drivable idents show ?thesis by (simp add: markers)
qed

text \<open>
  Against C8 as stated: two live instances whose local identifiers are all smaller than the
  block size and collide (both use 0), neither with a duplicate among its own markers; the
  second has a marker with the identifier -255. The info batch has the identifier 255 twice.
\<close>

theorem marker_ids_collide_with_negative_identifier:
  "live_modules negative_id_store (observers registered_manager)
     = [example_module, negative_id_module]
   \<and> map (\<lambda>mk. sint (ident mk)) (info_markers example_module) = [0]
   \<and> map (\<lambda>mk. sint (ident mk)) (info_markers negative_id_module) = [0, - 255]
   \<and> list_all (\<lambda>mk. sint (ident mk) < uint marker_offset) (info_markers example_module)
   \<and> list_all (\<lambda>mk. sint (ident mk) < uint marker_offset) (info_markers negative_id_module)
   \<and> map ident (fst (marker_batches negative_id_store registered_manager)) = [255, 510, 255]
   \<and> \<not> distinct (map ident (fst (marker_batches negative_id_store registered_manager)))"
  by (simp add: negative_id_store_def registered_manager_def example_manager_def
      marker_batches_def negative_id_module_def example_module_def add_marker_id_def
      marker_offset_def)

end
